theory Spec2Isabelle
  imports Main "HOL-Library.Word"
begin

section \<open>Package loadbalancer: the IPVS load balancer of kube-vip\<close>

text \<open>
  A shallow embedding of \<^verbatim>\<open>pkg/loadbalancer/ipvs.go\<close>. The file has four operations:
  \<^verbatim>\<open>NewIPVSLB\<close>, \<^verbatim>\<open>RemoveIPVSLB\<close>, \<^verbatim>\<open>AddBackend\<close> and \<^verbatim>\<open>RemoveBackend\<close>. Each builds a
  descriptor and hands it to an \<^verbatim>\<open>ipvs.Client\<close>, the netlink handle of the imported package
  \<^verbatim>\<open>github.com/cloudflare/ipvs\<close>. The client, \<^verbatim>\<open>ipvs.New\<close>, \<^verbatim>\<open>ipvs.NewIP\<close> and the standard
  library's \<^verbatim>\<open>net.ParseIP\<close> are not part of the repository: they are parameters of the model.
\<close>

subsection \<open>Go values\<close>

text \<open>
  A non-nil Go \<^verbatim>\<open>error\<close> is identified with the text \<^verbatim>\<open>err.Error()\<close> returns, the only thing
  the code reads of it; the nil error is \<open>None\<close>. \<^verbatim>\<open>net.IP\<close> is a byte slice, the nil slice
  being the empty list. A Go \<^verbatim>\<open>int\<close> is modelled by its mathematical value; the conversion
  \<^verbatim>\<open>uint16(port)\<close> keeps the low 16 bits.
\<close>

type_synonym error = string
type_synonym net_IP = "8 word list"
type_synonym ipvs_IP = "8 word list"
type_synonym uint16 = "16 word"
type_synonym uint32 = "32 word"

definition uint16 :: "int \<Rightarrow> uint16" where
  "uint16 port = word_of_int port"

text \<open>\<^verbatim>\<open>strings.HasPrefix\<close> and \<^verbatim>\<open>strings.Contains\<close> of the Go standard library.\<close>

fun strings_HasPrefix :: "string \<Rightarrow> string \<Rightarrow> bool" where
  "strings_HasPrefix s [] = True"
| "strings_HasPrefix [] (p # ps) = False"
| "strings_HasPrefix (c # cs) (p # ps) = (c = p \<and> strings_HasPrefix cs ps)"

fun strings_Contains :: "string \<Rightarrow> string \<Rightarrow> bool" where
  "strings_Contains [] substr = (substr = [])"
| "strings_Contains (c # cs) substr =
     (strings_HasPrefix (c # cs) substr \<or> strings_Contains cs substr)"

text \<open>
  \<^verbatim>\<open>fmt.Errorf("<msg>: %v", err)\<close>: a new error whose text is the message followed by the
  text of \<^verbatim>\<open>err\<close>.
\<close>

definition fmt_Errorf :: "string \<Rightarrow> error \<Rightarrow> error" where
  "fmt_Errorf msg err = msg @ err"

subsection \<open>Types of package ipvs\<close>

text \<open>
  The descriptors of the imported package, with the fields this repository sets; every
  other field of \<^verbatim>\<open>ipvs.Service\<close> and \<^verbatim>\<open>ipvs.Destination\<close> keeps its zero value in all of
  the code and is left out. The fields are prefixed (\<open>svc_\<close>, \<open>dst_\<close>) because both
  structs have \<^verbatim>\<open>Address\<close>, \<^verbatim>\<open>Port\<close> and \<^verbatim>\<open>Family\<close>.

  \<^verbatim>\<open>ipvs.ForwardType\<close> is a \<^verbatim>\<open>uint32\<close> holding the kernel's connection flag
  (\<^verbatim>\<open>IP_VS_CONN_F_MASQ = 0\<close>, \<^verbatim>\<open>IP_VS_CONN_F_LOCALNODE = 1\<close>, ...): the zero value of the
  type is masquerading and \<^verbatim>\<open>ipvs.Local\<close> is 1. \<^verbatim>\<open>Weight\<close> is a \<^verbatim>\<open>uint32\<close>.
\<close>

datatype AddressFamily = INET | INET6

datatype Protocol = TCP | UDP | SCTP

type_synonym ForwardType = uint32

definition ipvs_Local :: ForwardType where
  "ipvs_Local = 1"

record Service =
  svc_Family :: AddressFamily
  svc_Protocol :: Protocol
  svc_Port :: uint16
  svc_Address :: ipvs_IP
  svc_Scheduler :: string

record Destination =
  dst_Address :: ipvs_IP
  dst_Port :: uint16
  dst_Family :: AddressFamily
  dst_Weight :: uint32
  dst_FwdMethod :: ForwardType

text \<open>
  \<^verbatim>\<open>ipvs.Client\<close> is an interface. Each method is a function of the descriptor and of the
  state \<open>'k\<close> of the kernel's forwarding table, returning the error (or nil) and the new
  state.
\<close>

record 'k Client =
  CreateService :: "Service \<Rightarrow> 'k \<Rightarrow> error option \<times> 'k"
  RemoveService :: "Service \<Rightarrow> 'k \<Rightarrow> error option \<times> 'k"
  CreateDestination :: "Service \<Rightarrow> Destination \<Rightarrow> 'k \<Rightarrow> error option \<times> 'k"
  RemoveDestination :: "Service \<Rightarrow> Destination \<Rightarrow> 'k \<Rightarrow> error option \<times> 'k"

text \<open>
  The functions the code calls to turn an address string into an \<^verbatim>\<open>ipvs.IP\<close>:
  \<^verbatim>\<open>net.ParseIP\<close> (nil for a string that is no IP address) and \<^verbatim>\<open>ipvs.NewIP\<close>.
\<close>

record Deps =
  net_ParseIP :: "string \<Rightarrow> net_IP"
  ipvs_NewIP :: "net_IP \<Rightarrow> ipvs_IP"

subsection \<open>The source\<close>

definition ROUNDROBIN :: string where
  "ROUNDROBIN = ''rr''"

record 'k IPVSLoadBalancer =
  client :: "'k Client"
  loadBalancerService :: Service
  Port :: int

text \<open>
  A method's receiver is a handle value: the non-nil pointer \<^verbatim>\<open>NewIPVSLB\<close> returns
  on success.

  \<^verbatim>\<open>NewIPVSLB(address, port)\<close>. The argument \<open>new\<close> is the result of \<^verbatim>\<open>ipvs.New()\<close>: an error
  or a client. The Go function returns a pointer and an error of which exactly one is nil:
  the sum \<open>Inl err\<close> / \<open>Inr lb\<close>. The warning written to the log on the recovery path is
  not modelled.
\<close>

definition NewIPVSLB_svc :: "Deps \<Rightarrow> string \<Rightarrow> int \<Rightarrow> Service" where
  "NewIPVSLB_svc D address port =
     \<lparr>svc_Family = INET,
      svc_Protocol = TCP,
      svc_Port = uint16 port,
      svc_Address = ipvs_NewIP D (net_ParseIP D address),
      svc_Scheduler = ROUNDROBIN\<rparr>"

definition NewIPVSLB ::
  "Deps \<Rightarrow> error + 'k Client \<Rightarrow> string \<Rightarrow> int \<Rightarrow> 'k \<Rightarrow> (error + 'k IPVSLoadBalancer) \<times> 'k" where
  "NewIPVSLB D new address port k =
     (case new of
        Inl err \<Rightarrow> (Inl (fmt_Errorf ''error creating IPVS client: '' err), k)
      | Inr c \<Rightarrow>
          let svc = NewIPVSLB_svc D address port;
              lb = \<lparr>client = c, loadBalancerService = svc, Port = port\<rparr>
          in (case CreateService c svc k of
                (None, k1) \<Rightarrow> (Inr lb, k1)
              | (Some err, k1) \<Rightarrow>
                  if strings_Contains err ''file exists'' then
                    (case RemoveService c svc k1 of
                       (Some err2, k2) \<Rightarrow>
                         (Inl (fmt_Errorf ''error re-creating IPVS service: '' err2), k2)
                     | (None, k2) \<Rightarrow>
                         (case CreateService c svc k2 of
                            (Some err3, k3) \<Rightarrow>
                              (Inl (fmt_Errorf ''error re-creating IPVS service: '' err3), k3)
                          | (None, k3) \<Rightarrow> (Inr lb, k3)))
                  else (Inl (fmt_Errorf ''error creating IPVS service: '' err), k1)))"

definition RemoveIPVSLB :: "'k IPVSLoadBalancer \<Rightarrow> 'k \<Rightarrow> error option \<times> 'k" where
  "RemoveIPVSLB lb k =
     (case RemoveService (client lb) (loadBalancerService lb) k of
        (Some err, k1) \<Rightarrow> (Some (fmt_Errorf ''error removing existing IPVS service: '' err), k1)
      | (None, k1) \<Rightarrow> (None, k1))"

definition AddBackend_dst :: "Deps \<Rightarrow> string \<Rightarrow> int \<Rightarrow> Destination" where
  "AddBackend_dst D address port =
     \<lparr>dst_Address = ipvs_NewIP D (net_ParseIP D address),
      dst_Port = uint16 port,
      dst_Family = INET,
      dst_Weight = 1,
      dst_FwdMethod = ipvs_Local\<rparr>"

definition AddBackend ::
  "Deps \<Rightarrow> 'k IPVSLoadBalancer \<Rightarrow> string \<Rightarrow> int \<Rightarrow> 'k \<Rightarrow> error option \<times> 'k" where
  "AddBackend D lb address port k =
     (let dst = AddBackend_dst D address port
      in (case CreateDestination (client lb) (loadBalancerService lb) dst k of
            (Some err, k1) \<Rightarrow>
              if \<not> strings_Contains err ''file exists''
              then (Some (fmt_Errorf ''error creating backend: '' err), k1)
              else (None, k1)
          | (None, k1) \<Rightarrow> (None, k1)))"

text \<open>
  The descriptor \<^verbatim>\<open>RemoveBackend\<close> builds sets no \<^verbatim>\<open>FwdMethod\<close>: the field has the zero value
  of its type.
\<close>

definition RemoveBackend_dst :: "Deps \<Rightarrow> string \<Rightarrow> int \<Rightarrow> Destination" where
  "RemoveBackend_dst D address port =
     \<lparr>dst_Address = ipvs_NewIP D (net_ParseIP D address),
      dst_Port = uint16 port,
      dst_Family = INET,
      dst_Weight = 1,
      dst_FwdMethod = 0\<rparr>"

definition RemoveBackend ::
  "Deps \<Rightarrow> 'k IPVSLoadBalancer \<Rightarrow> string \<Rightarrow> int \<Rightarrow> 'k \<Rightarrow> error option \<times> 'k" where
  "RemoveBackend D lb address port k =
     (let dst = RemoveBackend_dst D address port
      in (case RemoveDestination (client lb) (loadBalancerService lb) dst k of
            (Some err, k1) \<Rightarrow> (Some (fmt_Errorf ''error removing backend: '' err), k1)
          | (None, k1) \<Rightarrow> (None, k1)))"

subsection \<open>Observing the calls made on the client\<close>

text \<open>
  To say what an operation hands to the forwarding table, and how often, a client is
  wrapped so that every call is appended to a log together with its descriptors and the
  error it returned. The wrapper changes nothing else: the wrapped client answers as the
  client it wraps.
\<close>

datatype call =
    CreateService_call Service "error option"
  | RemoveService_call Service "error option"
  | CreateDestination_call Service Destination "error option"
  | RemoveDestination_call Service Destination "error option"

definition traced :: "'k Client \<Rightarrow> ('k \<times> call list) Client" where
  "traced c =
     \<lparr>CreateService = (\<lambda>svc (k, tr).
        case CreateService c svc k of (e, k1) \<Rightarrow> (e, (k1, tr @ [CreateService_call svc e]))),
      RemoveService = (\<lambda>svc (k, tr).
        case RemoveService c svc k of (e, k1) \<Rightarrow> (e, (k1, tr @ [RemoveService_call svc e]))),
      CreateDestination = (\<lambda>svc dst (k, tr).
        case CreateDestination c svc dst k of
          (e, k1) \<Rightarrow> (e, (k1, tr @ [CreateDestination_call svc dst e]))),
      RemoveDestination = (\<lambda>svc dst (k, tr).
        case RemoveDestination c svc dst k of
          (e, k1) \<Rightarrow> (e, (k1, tr @ [RemoveDestination_call svc dst e])))\<rparr>"

definition call_Service :: "call \<Rightarrow> Service" where
  "call_Service x =
     (case x of
        CreateService_call svc e \<Rightarrow> svc
      | RemoveService_call svc e \<Rightarrow> svc
      | CreateDestination_call svc dst e \<Rightarrow> svc
      | RemoveDestination_call svc dst e \<Rightarrow> svc)"


definition is_CreateService :: "call \<Rightarrow> bool" where
  "is_CreateService x = (case x of CreateService_call svc e \<Rightarrow> True | _ \<Rightarrow> False)"

text \<open>
  The number of times creation of the service was tried again: the calls of
  \<^verbatim>\<open>CreateService\<close> in a log after the first one.
\<close>

definition retries :: "call list \<Rightarrow> nat" where
  "retries tr = length (filter is_CreateService tr) - 1"

subsection \<open>The forwarding table\<close>

text \<open>
  Modelled from the spec: the kernel's forwarding table behind \<^verbatim>\<open>ipvs.Client\<close>, which is
  not part of the repository. Sections 3 and 6 of the specification give its contract: a
  service is identified by (family, protocol, address, port) and a backend of a service
  by (address, port); creating what exists fails with an "already exists" error, removing
  what is missing with a "not found" error; removing a service removes its backends with
  it. The table is a list of services, each with the list of its backends, in the order
  of creation. The error texts are those of the errno values the kernel answers with
  (\<^verbatim>\<open>EEXIST\<close>, \<^verbatim>\<open>ENOENT\<close>, \<^verbatim>\<open>ESRCH\<close>); the source recognises "already exists" by the text
  \<^verbatim>\<open>file exists\<close>.
\<close>

type_synonym table = "(Service \<times> Destination list) list"

definition EEXIST :: error where
  "EEXIST = ''file exists''"

definition ENOENT :: error where
  "ENOENT = ''no such file or directory''"

definition ESRCH :: error where
  "ESRCH = ''no such process''"

definition svc_key :: "Service \<Rightarrow> AddressFamily \<times> Protocol \<times> ipvs_IP \<times> uint16" where
  "svc_key s = (svc_Family s, svc_Protocol s, svc_Address s, svc_Port s)"

definition dst_key :: "Destination \<Rightarrow> ipvs_IP \<times> uint16" where
  "dst_key d = (dst_Address d, dst_Port d)"

text \<open>The service descriptors registered for the tuple of \<open>svc\<close>, with their backends.\<close>

definition services_at :: "Service \<Rightarrow> table \<Rightarrow> (Service \<times> Destination list) list" where
  "services_at svc t = filter (\<lambda>e. svc_key (fst e) = svc_key svc) t"

text \<open>The backend set of the service, and its entries for the (address, port) of \<open>dst\<close>.\<close>

definition backends :: "Service \<Rightarrow> table \<Rightarrow> Destination list" where
  "backends svc t = concat (map snd (services_at svc t))"

definition backends_at :: "Service \<Rightarrow> Destination \<Rightarrow> table \<Rightarrow> Destination list" where
  "backends_at svc dst t = filter (\<lambda>d. dst_key d = dst_key dst) (backends svc t)"

text \<open>
  Modelled from the spec: \<^verbatim>\<open>CreateService\<close> of the forwarding table (section 6). A tuple
  that is registered is refused with "already exists"; a new service starts without
  backends.
\<close>

definition table_CreateService :: "Service \<Rightarrow> table \<Rightarrow> error option \<times> table" where
  "table_CreateService svc t =
     (if services_at svc t \<noteq> [] then (Some EEXIST, t)
      else (None, t @ [(svc, [])]))"

text \<open>
  Modelled from the spec: \<^verbatim>\<open>RemoveService\<close> of the forwarding table (sections 4.2 and 6).
  The service goes with all its backends; a service that is not registered is an error.
\<close>

definition table_RemoveService :: "Service \<Rightarrow> table \<Rightarrow> error option \<times> table" where
  "table_RemoveService svc t =
     (if services_at svc t = [] then (Some ESRCH, t)
      else (None, filter (\<lambda>e. svc_key (fst e) \<noteq> svc_key svc) t))"

text \<open>
  Modelled from the spec: \<^verbatim>\<open>CreateDestination\<close> of the forwarding table (section 6). A
  backend whose (address, port) the service already has is refused with "already exists".
\<close>

definition table_CreateDestination ::
  "Service \<Rightarrow> Destination \<Rightarrow> table \<Rightarrow> error option \<times> table" where
  "table_CreateDestination svc dst t =
     (if services_at svc t = [] then (Some ESRCH, t)
      else if backends_at svc dst t \<noteq> [] then (Some EEXIST, t)
      else (None, map (\<lambda>e. if svc_key (fst e) = svc_key svc
                             then (fst e, snd e @ [dst]) else e) t))"

text \<open>
  Modelled from the spec: \<^verbatim>\<open>RemoveDestination\<close> of the forwarding table (section 6). A
  backend the service does not have is refused with "not found".
\<close>

definition table_RemoveDestination ::
  "Service \<Rightarrow> Destination \<Rightarrow> table \<Rightarrow> error option \<times> table" where
  "table_RemoveDestination svc dst t =
     (if services_at svc t = [] then (Some ESRCH, t)
      else if backends_at svc dst t = [] then (Some ENOENT, t)
      else (None, map (\<lambda>e. if svc_key (fst e) = svc_key svc
                             then (fst e, filter (\<lambda>d. dst_key d \<noteq> dst_key dst) (snd e))
                             else e) t))"

text \<open>
  Modelled from the spec: the \<^verbatim>\<open>ipvs.Client\<close> whose four methods act on the table.
\<close>

definition table_client :: "table Client" where
  "table_client =
     \<lparr>CreateService = table_CreateService,
      RemoveService = table_RemoveService,
      CreateDestination = table_CreateDestination,
      RemoveDestination = table_RemoveDestination\<rparr>"

text \<open>
  The invariants of section 3 of the specification: at most one service per tuple, and
  within a service at most one backend per (address, port).
\<close>

definition wf_table :: "table \<Rightarrow> bool" where
  "wf_table t =
     (distinct (map (\<lambda>e. svc_key (fst e)) t) \<and>
      list_all (\<lambda>e. distinct (map dst_key (snd e))) t)"




subsection \<open>Addresses\<close>

text \<open>
  \<^verbatim>\<open>net.IP.To4\<close> of the Go standard library: the 4-byte form of an IPv4 address (given in
  4 bytes or as an IPv4-mapped 16-byte address), nil for anything else. The family of a
  parsed address is read from it: IPv4 when \<^verbatim>\<open>To4\<close> is not nil, IPv6 for any other 16-byte
  address.
\<close>

definition To4 :: "net_IP \<Rightarrow> net_IP" where
  "To4 ip =
     (if length ip = 4 then ip
      else if length ip = 16 \<and> take 10 ip = replicate 10 0 \<and> ip ! 10 = 0xff \<and> ip ! 11 = 0xff
      then drop 12 ip
      else [])"


text \<open>
  An instance of the address functions, for evaluating the operations at concrete
  inputs. \<open>example_ParseIP\<close> answers as \<^verbatim>\<open>net.ParseIP\<close> does on the addresses listed (an IPv4
  address comes back in its 16-byte IPv4-mapped form) and with nil on every other string,
  among them the strings that are no address. \<open>example_NewIP\<close> stores an IPv4 address in
  the first four of 16 bytes and an IPv6 address in all 16; nil gives the zero address.
\<close>

definition net_IPv4 :: "8 word \<Rightarrow> 8 word \<Rightarrow> 8 word \<Rightarrow> 8 word \<Rightarrow> net_IP" where
  "net_IPv4 a b c d = replicate 10 0 @ [0xff, 0xff, a, b, c, d]"

definition example_ParseIP :: "string \<Rightarrow> net_IP" where
  "example_ParseIP s =
     (if s = ''10.0.0.1'' then net_IPv4 10 0 0 1
      else if s = ''10.0.0.10'' then net_IPv4 10 0 0 10
      else if s = ''10.0.0.11'' then net_IPv4 10 0 0 11
      else if s = ''::1'' then replicate 15 0 @ [1]
      else [])"

definition example_NewIP :: "net_IP \<Rightarrow> ipvs_IP" where
  "example_NewIP ip = take 16 ((if To4 ip \<noteq> [] then To4 ip else ip) @ replicate 16 0)"

definition example_Deps :: Deps where
  "example_Deps = \<lparr>net_ParseIP = example_ParseIP, ipvs_NewIP = example_NewIP\<rparr>"

text \<open>
  The service of the specification's scenario, 10.0.0.1:6443, a handle for it on the
  table, the table right after its creation, and a table holding a stale descriptor for
  it with one backend, as a previous leader leaves it behind.
\<close>

definition example_svc :: Service where
  "example_svc = NewIPVSLB_svc example_Deps ''10.0.0.1'' 6443"

definition example_lb :: "table IPVSLoadBalancer" where
  "example_lb = \<lparr>client = table_client, loadBalancerService = example_svc, Port = 6443\<rparr>"

definition fresh_table :: table where
  "fresh_table = [(example_svc, [])]"

definition stale_table :: table where
  "stale_table = [(example_svc, [AddBackend_dst example_Deps ''10.0.0.10'' 6443])]"

text \<open>
  A client on which the removal of a service fails: creation answers as the table does,
  \<^verbatim>\<open>RemoveService\<close> fails with \<^verbatim>\<open>ENOBUFS\<close>, as a netlink request can at any time, and
  changes nothing.
\<close>

definition ENOBUFS :: error where
  "ENOBUFS = ''no buffer space available''"

definition failing_remove_client :: "table Client" where
  "failing_remove_client =
     \<lparr>CreateService = table_CreateService,
      RemoveService = (\<lambda>svc t. (Some ENOBUFS, t)),
      CreateDestination = table_CreateDestination,
      RemoveDestination = table_RemoveDestination\<rparr>"

section \<open>Lemmas\<close>

subsection \<open>Strings\<close>

lemma strings_HasPrefix_iff: "strings_HasPrefix s p = (\<exists>ss. s = p @ ss)"
  by (induction s p rule: strings_HasPrefix.induct) auto

lemma strings_HasPrefix_Contains: "strings_HasPrefix s p \<Longrightarrow> strings_Contains s p"
  by (cases s; cases p) auto

text \<open>\<open>strings_Contains\<close> is the substring relation.\<close>

lemma strings_Contains_iff: "strings_Contains s sub = (\<exists>ps ss. s = ps @ sub @ ss)"
proof (induction s)
  case Nil
  then show ?case by auto
next
  case (Cons c cs)
  show ?case
  proof
    assume "strings_Contains (c # cs) sub"
    then consider "strings_HasPrefix (c # cs) sub" | "strings_Contains cs sub" by auto
    then show "\<exists>ps ss. c # cs = ps @ sub @ ss"
    proof cases
      case 1
      then obtain ss where "c # cs = [] @ sub @ ss" by (auto simp: strings_HasPrefix_iff)
      then show ?thesis by blast
    next
      case 2
      then obtain ps ss where "cs = ps @ sub @ ss" using Cons.IH by blast
      then have "c # cs = (c # ps) @ sub @ ss" by simp
      then show ?thesis by blast
    qed
  next
    assume "\<exists>ps ss. c # cs = ps @ sub @ ss"
    then obtain ps ss where e: "c # cs = ps @ sub @ ss" by blast
    show "strings_Contains (c # cs) sub"
    proof (cases ps)
      case Nil
      then have "strings_HasPrefix (c # cs) sub" using e by (auto simp: strings_HasPrefix_iff)
      then show ?thesis by (rule strings_HasPrefix_Contains)
    next
      case (Cons a as)
      then have "cs = as @ sub @ ss" using e by simp
      then show ?thesis using Cons.IH by auto
    qed
  qed
qed

lemma EEXIST_conflict [simp]: "strings_Contains EEXIST ''file exists''"
  by (simp add: EEXIST_def)

lemma ESRCH_no_conflict [simp]: "\<not> strings_Contains ESRCH ''file exists''"
  by (simp add: ESRCH_def)

lemma ENOENT_no_conflict [simp]: "\<not> strings_Contains ENOENT ''file exists''"
  by (simp add: ENOENT_def)

subsection \<open>The calls each operation makes\<close>

lemma NewIPVSLB_trace:
  "\<exists>e1 e2 e3. snd (snd (NewIPVSLB D (Inr (traced c)) address port (k, tr0))) \<in>
     {tr0 @ [CreateService_call (NewIPVSLB_svc D address port) e1],
      tr0 @ [CreateService_call (NewIPVSLB_svc D address port) e1,
             RemoveService_call (NewIPVSLB_svc D address port) e2],
      tr0 @ [CreateService_call (NewIPVSLB_svc D address port) e1,
             RemoveService_call (NewIPVSLB_svc D address port) e2,
             CreateService_call (NewIPVSLB_svc D address port) e3]}"
  by (auto simp: NewIPVSLB_def traced_def Let_def split: prod.splits option.splits)

lemma RemoveIPVSLB_trace:
  "snd (snd (RemoveIPVSLB \<lparr>client = traced c, loadBalancerService = s, Port = q\<rparr> (k, tr0))) =
     tr0 @ [RemoveService_call s (fst (RemoveService c s k))]"
  by (auto simp: RemoveIPVSLB_def traced_def Let_def split: prod.splits option.splits)

lemma AddBackend_trace:
  "snd (snd (AddBackend D \<lparr>client = traced c, loadBalancerService = s, Port = q\<rparr>
               address port (k, tr0))) =
     tr0 @ [CreateDestination_call s (AddBackend_dst D address port)
             (fst (CreateDestination c s (AddBackend_dst D address port) k))]"
  by (auto simp: AddBackend_def traced_def Let_def split: prod.splits option.splits)

lemma RemoveBackend_trace:
  "snd (snd (RemoveBackend D \<lparr>client = traced c, loadBalancerService = s, Port = q\<rparr>
               address port (k, tr0))) =
     tr0 @ [RemoveDestination_call s (RemoveBackend_dst D address port)
             (fst (RemoveDestination c s (RemoveBackend_dst D address port) k))]"
  by (auto simp: RemoveBackend_def traced_def Let_def split: prod.splits option.splits)

text \<open>The wrapper is transparent: the wrapped client leaves the table as the client does.\<close>

lemma traced_NewIPVSLB:
  "fst (snd (NewIPVSLB D (Inr (traced c)) address port (k, tr0))) =
     snd (NewIPVSLB D (Inr c) address port k)"
  "isl (fst (NewIPVSLB D (Inr (traced c)) address port (k, tr0))) =
     isl (fst (NewIPVSLB D (Inr c) address port k))"
  by (auto simp: NewIPVSLB_def traced_def Let_def split: prod.splits option.splits)

lemma traced_RemoveIPVSLB:
  "fst (RemoveIPVSLB \<lparr>client = traced c, loadBalancerService = s, Port = q\<rparr> (k, tr0)) =
     fst (RemoveIPVSLB \<lparr>client = c, loadBalancerService = s, Port = q\<rparr> k)"
  "fst (snd (RemoveIPVSLB \<lparr>client = traced c, loadBalancerService = s, Port = q\<rparr> (k, tr0))) =
     snd (RemoveIPVSLB \<lparr>client = c, loadBalancerService = s, Port = q\<rparr> k)"
  by (auto simp: RemoveIPVSLB_def traced_def split: prod.splits option.splits)

lemma traced_AddBackend:
  "fst (AddBackend D \<lparr>client = traced c, loadBalancerService = s, Port = q\<rparr> address port (k, tr0)) =
     fst (AddBackend D \<lparr>client = c, loadBalancerService = s, Port = q\<rparr> address port k)"
  "fst (snd (AddBackend D \<lparr>client = traced c, loadBalancerService = s, Port = q\<rparr> address port (k, tr0))) =
     snd (AddBackend D \<lparr>client = c, loadBalancerService = s, Port = q\<rparr> address port k)"
  by (auto simp: AddBackend_def traced_def Let_def split: prod.splits option.splits)

lemma traced_RemoveBackend:
  "fst (RemoveBackend D \<lparr>client = traced c, loadBalancerService = s, Port = q\<rparr> address port (k, tr0)) =
     fst (RemoveBackend D \<lparr>client = c, loadBalancerService = s, Port = q\<rparr> address port k)"
  "fst (snd (RemoveBackend D \<lparr>client = traced c, loadBalancerService = s, Port = q\<rparr> address port (k, tr0))) =
     snd (RemoveBackend D \<lparr>client = c, loadBalancerService = s, Port = q\<rparr> address port k)"
  by (auto simp: RemoveBackend_def traced_def Let_def split: prod.splits option.splits)


subsection \<open>Evaluation at the examples\<close>

lemma example_addresses:
  "ipvs_NewIP example_Deps (net_ParseIP example_Deps ''10.0.0.1'')
     = [10, 0, 0, 1, 0, 0, 0, 0, 0, 0, 0, 0, 0, 0, 0, 0]"
  "ipvs_NewIP example_Deps (net_ParseIP example_Deps ''10.0.0.10'')
     = [10, 0, 0, 10, 0, 0, 0, 0, 0, 0, 0, 0, 0, 0, 0, 0]"
  "ipvs_NewIP example_Deps (net_ParseIP example_Deps ''10.0.0.11'')
     = [10, 0, 0, 11, 0, 0, 0, 0, 0, 0, 0, 0, 0, 0, 0, 0]"
  "ipvs_NewIP example_Deps (net_ParseIP example_Deps ''::1'')
     = [0, 0, 0, 0, 0, 0, 0, 0, 0, 0, 0, 0, 0, 0, 0, 1]"
  "ipvs_NewIP example_Deps (net_ParseIP example_Deps ''not an address'')
     = [0, 0, 0, 0, 0, 0, 0, 0, 0, 0, 0, 0, 0, 0, 0, 0]"
  by code_simp+


lemmas example_defs =
  example_svc_def example_lb_def fresh_table_def stale_table_def
  NewIPVSLB_svc_def AddBackend_dst_def RemoveBackend_dst_def example_addresses
  uint16_def ROUNDROBIN_def ipvs_Local_def EEXIST_def ENOENT_def ESRCH_def ENOBUFS_def
  fmt_Errorf_def

lemmas table_defs =
  table_client_def failing_remove_client_def table_CreateService_def table_RemoveService_def
  table_CreateDestination_def table_RemoveDestination_def services_at_def backends_def
  backends_at_def svc_key_def dst_key_def

subsection \<open>Ports\<close>

lemma uint16_mod: "uint (uint16 port) = port mod 65536"
  by (simp add: uint16_def uint_word_of_int)

lemma uint16_mod_idem: "uint16 (port mod 65536) = uint16 port"
  by (simp add: uint16_def word_uint_eq_iff uint_word_of_int)

subsection \<open>The forwarding table\<close>

lemma services_at_update:
  "services_at svc (map (\<lambda>e. if svc_key (fst e) = svc_key svc then (fst e, g e) else e) t) =
     map (\<lambda>e. (fst e, g e)) (services_at svc t)"
  by (induction t) (auto simp: services_at_def)


lemma backends_update:
  "backends svc (map (\<lambda>e. if svc_key (fst e) = svc_key svc then (fst e, g e) else e) t) =
     concat (map g (services_at svc t))"
  by (simp add: backends_def services_at_update comp_def)

lemma backends_at_removed:
  "backends_at svc dst (map (\<lambda>e. if svc_key (fst e) = svc_key svc
        then (fst e, filter (\<lambda>d. dst_key d \<noteq> dst_key dst) (snd e)) else e) t) = []"
  by (simp add: backends_at_def backends_update filter_concat comp_def)

lemma backends_at_added:
  assumes "services_at svc t \<noteq> []"
  shows "backends_at svc dst (map (\<lambda>e. if svc_key (fst e) = svc_key svc
        then (fst e, snd e @ [dst]) else e) t) \<noteq> []"
proof -
  obtain e es where "services_at svc t = e # es"
    using assms by (cases "services_at svc t") auto
  then show ?thesis
    by (simp add: backends_at_def backends_update)
qed



text \<open>The table's operations keep the invariants.\<close>

lemma wf_table_empty: "wf_table []"
  by (simp add: wf_table_def)

lemma wf_table_CreateService: "wf_table t \<Longrightarrow> wf_table (snd (table_CreateService svc t))"
  by (auto simp: wf_table_def table_CreateService_def services_at_def filter_empty_conv)

lemma wf_table_RemoveService: "wf_table t \<Longrightarrow> wf_table (snd (table_RemoveService svc t))"
  by (auto simp: wf_table_def table_RemoveService_def distinct_map_filter list_all_iff)

lemma wf_table_RemoveDestination:
  "wf_table t \<Longrightarrow> wf_table (snd (table_RemoveDestination svc dst t))"
  by (auto simp: wf_table_def table_RemoveDestination_def distinct_map_filter list_all_iff
      comp_def if_distrib [of "\<lambda>e. svc_key (fst e)"] cong: if_cong)

lemma wf_table_CreateDestination:
  assumes "wf_table t"
  shows "wf_table (snd (table_CreateDestination svc dst t))"
proof (cases "services_at svc t \<noteq> [] \<and> backends_at svc dst t = []")
  case False
  then show ?thesis using assms by (auto simp: table_CreateDestination_def)
next
  case True
  let ?f = "\<lambda>e. if svc_key (fst e) = svc_key svc then (fst e, snd e @ [dst]) else e"
  have keys: "map (\<lambda>e. svc_key (fst e)) (map ?f t) = map (\<lambda>e. svc_key (fst e)) t"
    by (induction t) auto
  have fresh: "dst_key dst \<notin> dst_key ` set (snd e)"
    if "e \<in> set t" "svc_key (fst e) = svc_key svc" for e
  proof
    assume "dst_key dst \<in> dst_key ` set (snd e)"
    then obtain d where d: "d \<in> set (snd e)" "dst_key d = dst_key dst" by auto
    have "e \<in> set (services_at svc t)"
      using that by (simp add: services_at_def)
    then have "set (snd e) \<subseteq> set (backends svc t)"
      by (auto simp: backends_def)
    then have "d \<in> set (backends svc t)"
      using d(1) by blast
    then have "d \<in> set (backends_at svc dst t)"
      using d(2) by (simp add: backends_at_def)
    then show False using True by simp
  qed
  have "list_all (\<lambda>e. distinct (map dst_key (snd e))) (map ?f t)"
    using assms fresh by (auto simp: wf_table_def list_all_iff)
  moreover have "distinct (map (\<lambda>e. svc_key (fst e)) (map ?f t))"
    using assms unfolding keys by (simp add: wf_table_def)
  ultimately have "wf_table (map ?f t)"
    unfolding wf_table_def by blast
  then show ?thesis
    using True by (simp add: table_CreateDestination_def)
qed









text \<open>The scenario of section 8 of the specification, run on the table.\<close>

lemma scenario:
  "NewIPVSLB example_Deps (Inr table_client) ''10.0.0.1'' 6443 [] = (Inr example_lb, fresh_table)"
  "AddBackend example_Deps example_lb ''10.0.0.10'' 6443 fresh_table = (None, stale_table)"
  "AddBackend example_Deps example_lb ''10.0.0.10'' 6443 stale_table = (None, stale_table)"
  "AddBackend example_Deps example_lb ''10.0.0.11'' 6443 stale_table
     = (None, [(example_svc, [AddBackend_dst example_Deps ''10.0.0.10'' 6443,
                              AddBackend_dst example_Deps ''10.0.0.11'' 6443])])"
  "RemoveBackend example_Deps example_lb ''10.0.0.10'' 6443
       [(example_svc, [AddBackend_dst example_Deps ''10.0.0.10'' 6443,
                       AddBackend_dst example_Deps ''10.0.0.11'' 6443])]
     = (None, [(example_svc, [AddBackend_dst example_Deps ''10.0.0.11'' 6443])])"
  "RemoveBackend example_Deps example_lb ''10.0.0.10'' 6443
       [(example_svc, [AddBackend_dst example_Deps ''10.0.0.11'' 6443])]
     = (Some ''error removing backend: no such file or directory'',
        [(example_svc, [AddBackend_dst example_Deps ''10.0.0.11'' 6443])])"
  "RemoveIPVSLB example_lb [(example_svc, [AddBackend_dst example_Deps ''10.0.0.11'' 6443])]
     = (None, [])"
  by (simp_all add: NewIPVSLB_def AddBackend_def RemoveBackend_def RemoveIPVSLB_def Let_def
      example_defs table_defs)

section \<open>Construction\<close>

text \<open>
  Claim C1, as the code has it. When the first \<^verbatim>\<open>CreateService\<close> call fails with an error
  whose text contains \<^verbatim>\<open>file exists\<close>, \<^verbatim>\<open>NewIPVSLB\<close> calls \<^verbatim>\<open>RemoveService\<close> once. If that
  removal fails, it returns an error and creation is not tried again. If the removal
  succeeds, creation is tried again exactly once, and a handle is returned if and only if
  that second call succeeds. When the first call fails with any other error, no further
  call is made on the client and the error is returned. The calls are read off the log of
  the wrapped client, for every client \<open>c\<close> and every state \<open>k\<close>.
\<close>

theorem NewIPVSLB_recovery:
  assumes "CreateService c (NewIPVSLB_svc D address port) k = (Some err, k1)"
  shows "(let svc = NewIPVSLB_svc D address port;
              r = fst (NewIPVSLB D (Inr (traced c)) address port (k, []));
              tr = snd (snd (NewIPVSLB D (Inr (traced c)) address port (k, [])))
          in if strings_Contains err ''file exists''
             then (case RemoveService c svc k1 of
                     (Some err2, k2) \<Rightarrow>
                       tr = [CreateService_call svc (Some err), RemoveService_call svc (Some err2)] \<and>
                       retries tr = 0 \<and> isl r
                   | (None, k2) \<Rightarrow>
                       tr = [CreateService_call svc (Some err), RemoveService_call svc None,
                             CreateService_call svc (fst (CreateService c svc k2))] \<and>
                       retries tr = 1 \<and>
                       (\<not> isl r) = (fst (CreateService c svc k2) = None))
             else tr = [CreateService_call svc (Some err)] \<and> retries tr = 0 \<and>
                  r = Inl (fmt_Errorf ''error creating IPVS service: '' err))"
  using assms
  by (auto simp: NewIPVSLB_def traced_def Let_def retries_def is_CreateService_def
      split: prod.splits option.splits)

text \<open>
  The recovery path on the table: the stale service is removed, with its backend, and
  created again.
\<close>

theorem NewIPVSLB_recovery_witness:
  "CreateService table_client (NewIPVSLB_svc example_Deps ''10.0.0.1'' 6443) stale_table
      = (Some ''file exists'', stale_table) \<and>
   strings_Contains ''file exists'' ''file exists'' \<and>
   RemoveService table_client example_svc stale_table = (None, []) \<and>
   snd (snd (NewIPVSLB example_Deps (Inr (traced table_client)) ''10.0.0.1'' 6443
               (stale_table, [])))
      = [CreateService_call example_svc (Some ''file exists''),
         RemoveService_call example_svc None,
         CreateService_call example_svc None] \<and>
   retries (snd (snd (NewIPVSLB example_Deps (Inr (traced table_client)) ''10.0.0.1'' 6443
                        (stale_table, [])))) = 1 \<and>
   \<not> isl (fst (NewIPVSLB example_Deps (Inr (traced table_client)) ''10.0.0.1'' 6443
                 (stale_table, [])))"
proof -
  have h: "CreateService table_client (NewIPVSLB_svc example_Deps ''10.0.0.1'' 6443) stale_table
      = (Some ''file exists'', stale_table)"
    by (simp add: example_defs table_defs)
  have c: "strings_Contains ''file exists'' ''file exists''" by simp
  have r: "RemoveService table_client example_svc stale_table = (None, [])"
    by (simp add: example_defs table_defs)
  have c2: "CreateService table_client example_svc [] = (None, fresh_table)"
    by (simp add: example_defs table_defs)
  show ?thesis
    using NewIPVSLB_recovery [OF h] h c r c2
    by (simp add: example_svc_def [symmetric] Let_def retries_def is_CreateService_def)
qed

text \<open>
  Claim C1 as stated fails where the removal fails: on a client whose \<^verbatim>\<open>RemoveService\<close>
  call fails, the first \<^verbatim>\<open>CreateService\<close> call fails with \<^verbatim>\<open>file exists\<close>, yet
  creation is never tried again; the stale descriptor stays in the table and an error is
  returned.
\<close>

theorem NewIPVSLB_no_retry_counterexample:
  "fst (CreateService failing_remove_client example_svc stale_table) = Some ''file exists'' \<and>
   strings_Contains ''file exists'' ''file exists'' \<and>
   snd (snd (NewIPVSLB example_Deps (Inr (traced failing_remove_client)) ''10.0.0.1'' 6443
               (stale_table, [])))
      = [CreateService_call example_svc (Some ''file exists''),
         RemoveService_call example_svc (Some ''no buffer space available'')] \<and>
   retries (snd (snd (NewIPVSLB example_Deps (Inr (traced failing_remove_client)) ''10.0.0.1'' 6443
                        (stale_table, [])))) = 0 \<and>
   fst (snd (NewIPVSLB example_Deps (Inr (traced failing_remove_client)) ''10.0.0.1'' 6443
               (stale_table, []))) = stale_table \<and>
   isl (fst (NewIPVSLB example_Deps (Inr (traced failing_remove_client)) ''10.0.0.1'' 6443
              (stale_table, [])))"
  by (simp add: NewIPVSLB_def traced_def retries_def is_CreateService_def Let_def
      example_defs table_defs)



section \<open>Backends\<close>





text \<open>
  Claim C5. On the forwarding table, for a service that is registered: \<^verbatim>\<open>AddBackend\<close>
  followed by \<^verbatim>\<open>RemoveBackend\<close> for the same (address, port) both return nil and leave the
  backend set of the service without an entry for the pair; one more \<^verbatim>\<open>RemoveBackend\<close>
  for the pair returns an error and changes nothing.
\<close>

theorem add_remove_roundtrip:
  assumes cl: "client lb = table_client"
      and present: "services_at (loadBalancerService lb) t \<noteq> []"
  shows "\<exists>t1 t2 err. AddBackend D lb address port t = (None, t1) \<and>
           RemoveBackend D lb address port t1 = (None, t2) \<and>
           backends_at (loadBalancerService lb) (AddBackend_dst D address port) t2 = [] \<and>
           RemoveBackend D lb address port t2 = (Some err, t2)"
proof -
  let ?svc = "loadBalancerService lb"
  let ?d = "AddBackend_dst D address port"
  let ?r = "RemoveBackend_dst D address port"
  have key: "dst_key ?r = dst_key ?d"
    by (simp add: dst_key_def AddBackend_dst_def RemoveBackend_dst_def)
  then have at: "\<And>u. backends_at ?svc ?r u = backends_at ?svc ?d u"
    by (simp add: backends_at_def)
  obtain t1 where add: "AddBackend D lb address port t = (None, t1)"
    and s1: "services_at ?svc t1 \<noteq> []" and b1: "backends_at ?svc ?d t1 \<noteq> []"
  proof (cases "backends_at ?svc ?d t = []")
    case True
    let ?t1 = "map (\<lambda>e. if svc_key (fst e) = svc_key ?svc then (fst e, snd e @ [?d]) else e) t"
    have "AddBackend D lb address port t = (None, ?t1)"
      using True present cl by (simp add: AddBackend_def table_client_def table_CreateDestination_def)
    moreover have "services_at ?svc ?t1 \<noteq> []"
      using present by (simp add: services_at_update)
    moreover have "backends_at ?svc ?d ?t1 \<noteq> []"
      using present by (rule backends_at_added)
    ultimately show ?thesis using that by blast
  next
    case False
    have "AddBackend D lb address port t = (None, t)"
      using False present cl by (simp add: AddBackend_def table_client_def table_CreateDestination_def)
    then show ?thesis using that present False by blast
  qed
  let ?t2 = "map (\<lambda>e. if svc_key (fst e) = svc_key ?svc
        then (fst e, filter (\<lambda>d. dst_key d \<noteq> dst_key ?r) (snd e)) else e) t1"
  have rem: "RemoveBackend D lb address port t1 = (None, ?t2)"
    using s1 b1 cl at by (simp add: RemoveBackend_def table_client_def table_RemoveDestination_def)
  have b2: "backends_at ?svc ?r ?t2 = []"
    by (rule backends_at_removed)
  have s2: "services_at ?svc ?t2 \<noteq> []"
    using s1 by (simp add: services_at_update)
  have rem2: "RemoveBackend D lb address port ?t2 =
      (Some (fmt_Errorf ''error removing backend: '' ENOENT), ?t2)"
    using s2 b2 cl by (simp add: RemoveBackend_def table_client_def table_RemoveDestination_def)
  have b2': "backends_at ?svc ?d ?t2 = []"
    using b2 at by simp
  show ?thesis
    using add rem b2' rem2 by (intro exI conjI)
qed

text \<open>
  The round trip for 10.0.0.10:6443 on the freshly created service.
\<close>

theorem add_remove_roundtrip_witness:
  "client example_lb = table_client \<and>
   services_at (loadBalancerService example_lb) fresh_table \<noteq> [] \<and>
   AddBackend example_Deps example_lb ''10.0.0.10'' 6443 fresh_table = (None, stale_table) \<and>
   RemoveBackend example_Deps example_lb ''10.0.0.10'' 6443 stale_table = (None, fresh_table) \<and>
   backends_at example_svc (AddBackend_dst example_Deps ''10.0.0.10'' 6443) fresh_table = [] \<and>
   RemoveBackend example_Deps example_lb ''10.0.0.10'' 6443 fresh_table
     = (Some ''error removing backend: no such file or directory'', fresh_table)"
proof -
  have 1: "client example_lb = table_client"
    by (simp add: example_lb_def)
  have 2: "services_at (loadBalancerService example_lb) fresh_table \<noteq> []"
    by (simp add: example_lb_def fresh_table_def services_at_def)
  have 3: "AddBackend example_Deps example_lb ''10.0.0.10'' 6443 fresh_table = (None, stale_table)"
    by (simp add: AddBackend_def example_defs table_defs)
  have 4: "RemoveBackend example_Deps example_lb ''10.0.0.10'' 6443 stale_table = (None, fresh_table)"
    by (simp add: RemoveBackend_def example_defs table_defs)
  have 5: "RemoveBackend example_Deps example_lb ''10.0.0.10'' 6443 fresh_table
     = (Some ''error removing backend: no such file or directory'', fresh_table)"
    by (simp add: RemoveBackend_def example_defs table_defs)
  have 6: "backends_at example_svc (AddBackend_dst example_Deps ''10.0.0.10'' 6443) fresh_table = []"
    by (simp add: example_defs table_defs)
  show ?thesis
    using add_remove_roundtrip [OF 1 2, of example_Deps "''10.0.0.10''" 6443] 1 2 3 4 5 6
    by simp
qed

section \<open>Address family and fixed parameters\<close>



text \<open>
  Claim C7. For every address, port, client and state: every service descriptor
  \<^verbatim>\<open>NewIPVSLB\<close> hands to the client, and the one in the handle, has protocol TCP and the
  scheduler \<^verbatim>\<open>rr\<close> (round robin); \<^verbatim>\<open>AddBackend\<close> makes one call, \<^verbatim>\<open>CreateDestination\<close>, with
  a backend of weight 1 and forwarding method \<^verbatim>\<open>ipvs.Local\<close>.
\<close>

theorem fixed_parameters:
  "snd (snd (NewIPVSLB D (Inr (traced c)) address port (k, []))) \<noteq> [] \<and>
   list_all (\<lambda>x. svc_Protocol (call_Service x) = TCP \<and> svc_Scheduler (call_Service x) = ''rr'')
     (snd (snd (NewIPVSLB D (Inr (traced c)) address port (k, [])))) \<and>
   (case fst (NewIPVSLB D (Inr c) address port k) of
      Inl err \<Rightarrow> True
    | Inr lb \<Rightarrow> svc_Protocol (loadBalancerService lb) = TCP \<and>
               svc_Scheduler (loadBalancerService lb) = ''rr'') \<and>
   (\<exists>dst e. snd (snd (AddBackend D \<lparr>client = traced c, loadBalancerService = s, Port = q\<rparr>
                         address port (k, []))) = [CreateDestination_call s dst e] \<and>
            dst_Weight dst = 1 \<and> dst_FwdMethod dst = ipvs_Local)"
proof -
  let ?tr = "snd (snd (NewIPVSLB D (Inr (traced c)) address port (k, [])))"
  let ?svc = "NewIPVSLB_svc D address port"
  have svc: "svc_Protocol ?svc = TCP" "svc_Scheduler ?svc = ''rr''"
    by (simp_all add: NewIPVSLB_svc_def ROUNDROBIN_def)
  obtain e1 e2 e3 where
    "?tr \<in> {[] @ [CreateService_call ?svc e1],
             [] @ [CreateService_call ?svc e1, RemoveService_call ?svc e2],
             [] @ [CreateService_call ?svc e1, RemoveService_call ?svc e2,
                   CreateService_call ?svc e3]}"
    using NewIPVSLB_trace [of D c address port k "[]"] by blast
  then have tr: "?tr \<noteq> []"
    "list_all (\<lambda>x. svc_Protocol (call_Service x) = TCP \<and> svc_Scheduler (call_Service x) = ''rr'') ?tr"
    using svc by (auto simp: call_Service_def)
  have lb: "case fst (NewIPVSLB D (Inr c) address port k) of
      Inl err \<Rightarrow> True
    | Inr lb \<Rightarrow> svc_Protocol (loadBalancerService lb) = TCP \<and>
               svc_Scheduler (loadBalancerService lb) = ''rr''"
    using svc by (auto simp: NewIPVSLB_def Let_def split: prod.splits option.splits sum.splits)
  have dst: "dst_Weight (AddBackend_dst D address port) = 1"
    "dst_FwdMethod (AddBackend_dst D address port) = ipvs_Local"
    by (simp_all add: AddBackend_dst_def)
  show ?thesis
    using tr lb dst AddBackend_trace [of D c s q address port k "[]"] by simp
qed

section \<open>Failures\<close>



section \<open>Ports and the descriptor used for removal\<close>

text \<open>
  Claim C9. For every integer port, every descriptor handed to the client carries the
  port modulo \<open>2^16\<close>: the service of every call of \<^verbatim>\<open>NewIPVSLB\<close>, the backend of
  \<^verbatim>\<open>AddBackend\<close> and the backend of \<^verbatim>\<open>RemoveBackend\<close>. No operation looks at the port
  otherwise: each behaves for \<open>port\<close> as it does for \<open>port mod 2^16\<close> (the handle of
  \<^verbatim>\<open>NewIPVSLB\<close> keeps the integer as given in its field \<^verbatim>\<open>Port\<close>), so a port outside
  1..65535 is truncated and not rejected.
\<close>

theorem port_truncated:
  "snd (snd (NewIPVSLB D (Inr (traced c)) address port (k, []))) \<noteq> [] \<and>
   list_all (\<lambda>x. uint (svc_Port (call_Service x)) = port mod 65536)
     (snd (snd (NewIPVSLB D (Inr (traced c)) address port (k, [])))) \<and>
   (\<exists>dst e. snd (snd (AddBackend D \<lparr>client = traced c, loadBalancerService = s, Port = q\<rparr>
                         address port (k, []))) = [CreateDestination_call s dst e] \<and>
            uint (dst_Port dst) = port mod 65536) \<and>
   (\<exists>dst e. snd (snd (RemoveBackend D \<lparr>client = traced c, loadBalancerService = s, Port = q\<rparr>
                         address port (k, []))) = [RemoveDestination_call s dst e] \<and>
            uint (dst_Port dst) = port mod 65536) \<and>
   map_prod (map_sum id loadBalancerService) id (NewIPVSLB D new address port k)
     = map_prod (map_sum id loadBalancerService) id (NewIPVSLB D new address (port mod 65536) k) \<and>
   AddBackend D lb address port k = AddBackend D lb address (port mod 65536) k \<and>
   RemoveBackend D lb address port k = RemoveBackend D lb address (port mod 65536) k"
proof -
  let ?tr = "snd (snd (NewIPVSLB D (Inr (traced c)) address port (k, [])))"
  let ?svc = "NewIPVSLB_svc D address port"
  have svc: "uint (svc_Port ?svc) = port mod 65536"
    by (simp add: NewIPVSLB_svc_def uint16_mod)
  obtain e1 e2 e3 where
    "?tr \<in> {[] @ [CreateService_call ?svc e1],
             [] @ [CreateService_call ?svc e1, RemoveService_call ?svc e2],
             [] @ [CreateService_call ?svc e1, RemoveService_call ?svc e2,
                   CreateService_call ?svc e3]}"
    using NewIPVSLB_trace [of D c address port k "[]"] by blast
  then have tr: "?tr \<noteq> []" "list_all (\<lambda>x. uint (svc_Port (call_Service x)) = port mod 65536) ?tr"
    using svc by (auto simp: call_Service_def)
  have dst: "uint (dst_Port (AddBackend_dst D address port)) = port mod 65536"
    "uint (dst_Port (RemoveBackend_dst D address port)) = port mod 65536"
    by (simp_all add: AddBackend_dst_def RemoveBackend_dst_def uint16_mod)
  have same: "NewIPVSLB_svc D address (port mod 65536) = NewIPVSLB_svc D address port"
    "AddBackend_dst D address (port mod 65536) = AddBackend_dst D address port"
    "RemoveBackend_dst D address (port mod 65536) = RemoveBackend_dst D address port"
    by (simp_all add: NewIPVSLB_svc_def AddBackend_dst_def RemoveBackend_dst_def uint16_mod_idem)
  have new: "map_prod (map_sum id loadBalancerService) id (NewIPVSLB D new address port k)
     = map_prod (map_sum id loadBalancerService) id (NewIPVSLB D new address (port mod 65536) k)"
    by (auto simp: NewIPVSLB_def Let_def same split: sum.splits prod.splits option.splits)
  have ops: "AddBackend D lb address port k = AddBackend D lb address (port mod 65536) k"
    "RemoveBackend D lb address port k = RemoveBackend D lb address (port mod 65536) k"
    by (simp_all add: AddBackend_def RemoveBackend_def same)
  show ?thesis
    using tr dst new ops AddBackend_trace [of D c s q address port k "[]"]
      RemoveBackend_trace [of D c s q address port k "[]"]
    by simp
qed

text \<open>
  Port 71979 is 65536 + 6443: the service and the backend are registered under port
  6443; port 0 is accepted; port -1 becomes 65535.
\<close>

theorem port_truncated_witness:
  "71979 mod 65536 = (6443 :: int) \<and>
   NewIPVSLB example_Deps (Inr table_client) ''10.0.0.1'' 71979 []
     = (Inr \<lparr>client = table_client, loadBalancerService = example_svc, Port = 71979\<rparr>, fresh_table) \<and>
   svc_Port example_svc = 6443 \<and>
   AddBackend example_Deps example_lb ''10.0.0.10'' 71979 fresh_table = (None, stale_table) \<and>
   RemoveBackend example_Deps example_lb ''10.0.0.10'' 71979 stale_table = (None, fresh_table) \<and>
   fst (AddBackend example_Deps example_lb ''10.0.0.10'' 0 fresh_table) = None \<and>
   dst_Port (AddBackend_dst example_Deps ''10.0.0.10'' 0) = 0 \<and>
   dst_Port (AddBackend_dst example_Deps ''10.0.0.10'' (- 1)) = 65535"
proof -
  have m: "71979 mod 65536 = (6443 :: int)" by simp
  have new: "NewIPVSLB example_Deps (Inr table_client) ''10.0.0.1'' 6443 []
     = (Inr \<lparr>client = table_client, loadBalancerService = example_svc, Port = 6443\<rparr>, fresh_table)"
    by (simp add: NewIPVSLB_def Let_def example_defs table_defs)
  have new': "NewIPVSLB example_Deps (Inr table_client) ''10.0.0.1'' 71979 []
     = (Inr \<lparr>client = table_client, loadBalancerService = example_svc, Port = 71979\<rparr>, fresh_table)"
    by (simp add: NewIPVSLB_def Let_def example_defs table_defs)
  have p: "svc_Port example_svc = 6443"
    by (simp add: example_defs)
  have add: "AddBackend example_Deps example_lb ''10.0.0.10'' 6443 fresh_table = (None, stale_table)"
    by (simp add: AddBackend_def example_defs table_defs)
  have rem: "RemoveBackend example_Deps example_lb ''10.0.0.10'' 6443 stale_table = (None, fresh_table)"
    by (simp add: RemoveBackend_def example_defs table_defs)
  have zero: "fst (AddBackend example_Deps example_lb ''10.0.0.10'' 0 fresh_table) = None"
    by (simp add: AddBackend_def example_defs table_defs)
  have z: "dst_Port (AddBackend_dst example_Deps ''10.0.0.10'' 0) = 0"
    "dst_Port (AddBackend_dst example_Deps ''10.0.0.10'' (- 1)) = 65535"
    by (simp_all add: AddBackend_dst_def uint16_def)
  show ?thesis
    using port_truncated [of example_Deps table_client "''10.0.0.10''" 71979 fresh_table
        example_svc 6443 "Inr table_client" example_lb]
      port_truncated [of example_Deps table_client "''10.0.0.10''" 71979 stale_table
        example_svc 6443 "Inr table_client" example_lb]
      m new' p add rem zero z
    by simp
qed

text \<open>
  Claim C10. For every address and port, \<^verbatim>\<open>AddBackend\<close> hands one backend descriptor to
  \<^verbatim>\<open>CreateDestination\<close> and \<^verbatim>\<open>RemoveBackend\<close> one to \<^verbatim>\<open>RemoveDestination\<close>. The two agree on
  address, port, family and weight; the first has the forwarding method \<^verbatim>\<open>ipvs.Local\<close>,
  the second the zero value of the type, which is not \<^verbatim>\<open>ipvs.Local\<close>. So the descriptor
  given for removal is not the one given at creation: it is that descriptor with the
  forwarding method set to zero.
\<close>

theorem RemoveBackend_descriptor:
  "\<exists>d_add d_rem e e'.
     snd (snd (AddBackend D \<lparr>client = traced c, loadBalancerService = s, Port = q\<rparr>
                 address port (k, []))) = [CreateDestination_call s d_add e] \<and>
     snd (snd (RemoveBackend D \<lparr>client = traced c, loadBalancerService = s, Port = q\<rparr>
                 address port (k', []))) = [RemoveDestination_call s d_rem e'] \<and>
     dst_Address d_rem = dst_Address d_add \<and>
     dst_Port d_rem = dst_Port d_add \<and>
     dst_Family d_rem = dst_Family d_add \<and>
     dst_Weight d_rem = dst_Weight d_add \<and>
     dst_FwdMethod d_add = ipvs_Local \<and>
     dst_FwdMethod d_rem = 0 \<and>
     ipvs_Local \<noteq> 0 \<and>
     d_rem = d_add\<lparr>dst_FwdMethod := 0\<rparr> \<and>
     d_rem \<noteq> d_add"
proof -
  let ?a = "AddBackend_dst D address port"
  let ?r = "RemoveBackend_dst D address port"
  have fields: "dst_Address ?r = dst_Address ?a" "dst_Port ?r = dst_Port ?a"
    "dst_Family ?r = dst_Family ?a" "dst_Weight ?r = dst_Weight ?a"
    "dst_FwdMethod ?a = ipvs_Local" "dst_FwdMethod ?r = 0" "ipvs_Local \<noteq> 0"
    "?r = ?a\<lparr>dst_FwdMethod := 0\<rparr>"
    by (simp_all add: AddBackend_dst_def RemoveBackend_dst_def ipvs_Local_def)
  have neq: "?r \<noteq> ?a"
    by (simp add: AddBackend_dst_def RemoveBackend_dst_def ipvs_Local_def)
  show ?thesis
    using fields neq AddBackend_trace [of D c s q address port k "[]"]
      RemoveBackend_trace [of D c s q address port k' "[]"]
    by (intro exI [of _ ?a] exI [of _ ?r] exI) simp
qed

end
